theory Spec2Isabelle
  imports Main "HOL-Library.Sublist" "HOL-Library.AList"
begin

section \<open>Python values used by main.py\<close>

text \<open>
  A Python \<open>str\<close> is a sequence of Unicode code points; a code point is a natural
  number. Literals of the source are ASCII and are written through \<open>ascii\<close>.
\<close>

type_synonym ustr = "nat list"

definition ascii :: "string \<Rightarrow> ustr" where
  "ascii s = map of_char s"

text \<open>
  Slices. \<open>xs[k:]\<close> and \<open>xs[:k]\<close> for a Python integer \<open>k\<close>: a negative bound counts
  from the end and is clipped at the start of the sequence.
\<close>

definition slice_from :: "int \<Rightarrow> 'a list \<Rightarrow> 'a list" where
  "slice_from k xs = (if k < 0 then drop (nat (int (length xs) + k)) xs else drop (nat k) xs)"

definition slice_to :: "int \<Rightarrow> 'a list \<Rightarrow> 'a list" where
  "slice_to k xs = (if k < 0 then take (nat (int (length xs) + k)) xs else take (nat k) xs)"

text \<open>The values stored in a history entry or returned in a response body.\<close>

datatype pyval =
    PNone
  | PStr ustr
  | PInt int
  | PMegabytes int  \<comment> \<open>the float \<open>round(n / (1024 * 1024), 2)\<close> of a byte count \<open>n\<close>, kept symbolic\<close>

text \<open>
  \<open>n / (1024 * 1024)\<close> is a float: the division raises \<open>OverflowError\<close> when the
  quotient, rounded to the nearest float, is beyond the largest one, that is from
  \<open>FILESIZE_OVERFLOW\<close> bytes on.
\<close>

definition FILESIZE_OVERFLOW :: int where
  "FILESIZE_OVERFLOW = 2 ^ 1044 - 2 ^ 990"

text \<open>A \<open>dict\<close> with string keys keeps insertion order: an association list.\<close>

type_synonym entry = "(string \<times> pyval) list"

section \<open>Configuration (main.py, lines 66 to 69)\<close>

record config =
  DOWNLOAD_FOLDER :: ustr
  MAX_FILE_AGE_DAYS :: int
  MAX_HISTORY_ITEMS :: int

text \<open>\<open>os.path.join(a, b)\<close> of posixpath, for two arguments.\<close>

definition SLASH :: nat where
  "SLASH = 47"

definition DOT :: nat where
  "DOT = 46"

definition UNDERSCORE :: nat where
  "UNDERSCORE = 95"

definition path_join :: "ustr \<Rightarrow> ustr \<Rightarrow> ustr" where
  "path_join a b =
     (if b \<noteq> [] \<and> hd b = SLASH then b
      else if a = [] \<or> last a = SLASH then a @ b
      else a @ [SLASH] @ b)"

definition HISTORY_FILE :: "config \<Rightarrow> ustr" where
  "HISTORY_FILE cfg = path_join (DOWNLOAD_FOLDER cfg) (ascii ''.history.json'')"

section \<open>The file system seen by the program\<close>

text \<open>
  The file system is an association list from path strings to nodes, in the order in
  which a directory scan yields them. A node carries what the program reads from it:
  whether it is a regular file, whether \<open>stat\<close> on it succeeds, its modification time
  (microseconds), its size, whether opening it for reading or writing and removing it
  succeed, and its content, which is either a JSON array of history entries or bytes
  that do not parse as JSON. The download folder itself is created at start-up (line 73)
  and can be listed.
\<close>

datatype payload = Bytes | JsonList "entry list"

record node =
  is_file :: bool
  stat_ok :: bool
  mtime :: int
  fsize :: nat
  readable :: bool
  writable :: bool
  removable :: bool
  content :: payload

type_synonym fs = "(ustr \<times> node) list"

datatype py_exc =
    FileNotFoundError
  | IsADirectoryError
  | PermissionError
  | JSONDecodeError
  | KeyError
  | OverflowError
  | ValueError
  | UnicodeEncodeError

text \<open>\<open>os.path.exists\<close>: \<open>stat\<close> succeeds; a failing \<open>stat\<close> counts as absent.\<close>

definition path_exists :: "fs \<Rightarrow> ustr \<Rightarrow> bool" where
  "path_exists f p = (case map_of f p of None \<Rightarrow> False | Some n \<Rightarrow> stat_ok n)"

text \<open>\<open>open(p, 'r')\<close> followed by \<open>json.load\<close>.\<close>

definition read_json :: "fs \<Rightarrow> ustr \<Rightarrow> py_exc + entry list" where
  "read_json f p =
     (case map_of f p of
        None \<Rightarrow> Inl FileNotFoundError
      | Some n \<Rightarrow>
          if \<not> is_file n then Inl IsADirectoryError
          else if \<not> readable n then Inl PermissionError
          else (case content n of JsonList h \<Rightarrow> Inr h | Bytes \<Rightarrow> Inl JSONDecodeError))"

text \<open>
  Text is written as UTF-8: a string with a surrogate code point (\<open>D800\<close> to \<open>DFFF\<close>)
  cannot be encoded, and encoding it raises \<open>UnicodeEncodeError\<close>. The decimal text of
  an integer of more than 4300 digits is refused with \<open>ValueError\<close>
  (\<open>sys.int_info.default_max_str_digits\<close>), in an f-string as in the JSON encoder.
\<close>

definition encodable :: "ustr \<Rightarrow> bool" where
  "encodable s = list_all (\<lambda>c. \<not> (0xD800 \<le> c \<and> c \<le> 0xDFFF)) s"

definition printable_int :: "int \<Rightarrow> bool" where
  "printable_int i = (\<bar>i\<bar> < 10 ^ 4300)"

text \<open>
  \<open>json.dump\<close> writes a document piece by piece; the keys of the entries are literals of
  the source. \<open>dump_error\<close> is the exception of the first value that cannot be written,
  if there is one.
\<close>

fun dump_error_value :: "pyval \<Rightarrow> py_exc option" where
  "dump_error_value (PStr s) = (if encodable s then None else Some UnicodeEncodeError)"
| "dump_error_value (PInt i) = (if printable_int i then None else Some ValueError)"
| "dump_error_value v = None"

fun first_error :: "py_exc option list \<Rightarrow> py_exc option" where
  "first_error [] = None"
| "first_error (None # rs) = first_error rs"
| "first_error (Some x # rs) = Some x"

definition dump_error :: "entry list \<Rightarrow> py_exc option" where
  "dump_error h = first_error (map (\<lambda>kv. dump_error_value (snd kv)) (concat h))"

text \<open>
  \<open>open(p, 'w')\<close> followed by \<open>json.dump(..., ensure_ascii=False)\<close>, at time \<open>now\<close>.
  Opening fails on a directory or a file that may not be written, and then nothing
  changes. Otherwise an existing file is truncated and overwritten in place and a
  missing one is created. When a value of the entries cannot be written the dump
  raises after the file was opened, and what is left in the file is the beginning of a
  document, which does not parse. The result is the file system after the call and the
  exception raised, if any.
\<close>

definition new_file :: "int \<Rightarrow> payload \<Rightarrow> node" where
  "new_file now c =
     \<lparr>is_file = True, stat_ok = True, mtime = now, fsize = 0, readable = True,
      writable = True, removable = True, content = c\<rparr>"

definition write_json :: "int \<Rightarrow> fs \<Rightarrow> ustr \<Rightarrow> entry list \<Rightarrow> fs \<times> py_exc option" where
  "write_json now f p h =
     (let raised = dump_error h;
          written = (if raised = None then JsonList h else Bytes)
      in case map_of f p of
           None \<Rightarrow> (AList.update p (new_file now written) f, raised)
         | Some n \<Rightarrow>
             if \<not> is_file n then (f, Some IsADirectoryError)
             else if \<not> writable n then (f, Some PermissionError)
             else (AList.update p (n\<lparr>mtime := now, content := written\<rparr>) f, raised))"

section \<open>Download history (main.py, lines 80 to 108)\<close>

definition load_history :: "config \<Rightarrow> fs \<Rightarrow> entry list" where
  "load_history cfg f =
     (if path_exists f (HISTORY_FILE cfg) then
        (case read_json f (HISTORY_FILE cfg) of Inr h \<Rightarrow> h | Inl e \<Rightarrow> [])
      else [])"

text \<open>\<open>save_history\<close> catches and logs every exception of the write.\<close>

definition save_history :: "config \<Rightarrow> int \<Rightarrow> entry list \<Rightarrow> fs \<Rightarrow> fs" where
  "save_history cfg now history f =
     (let history = slice_from (- MAX_HISTORY_ITEMS cfg) history
      in fst (write_json now f (HISTORY_FILE cfg) history))"

text \<open>
  \<open>add_to_history\<close>: \<open>stamp\<close> is \<open>datetime.now().isoformat()\<close> and \<open>ident\<close> the first
  eight hex digits of the MD5 of a second clock reading; both come from the clock.
\<close>

definition stamp_entry :: "entry \<Rightarrow> ustr \<Rightarrow> ustr \<Rightarrow> entry" where
  "stamp_entry data stamp ident =
     AList.update ''id'' (PStr ident) (AList.update ''timestamp'' (PStr stamp) data)"

definition add_to_history :: "config \<Rightarrow> int \<Rightarrow> ustr \<Rightarrow> ustr \<Rightarrow> entry \<Rightarrow> fs \<Rightarrow> fs" where
  "add_to_history cfg now stamp ident data f =
     (let history = load_history cfg f;
          history = history @ [stamp_entry data stamp ident]
      in save_history cfg now history f)"

section \<open>History endpoints (main.py, lines 264 to 283)\<close>

definition get_history :: "config \<Rightarrow> fs \<Rightarrow> int \<Rightarrow> entry list" where
  "get_history cfg f limit = rev (slice_from (- limit) (load_history cfg f))"

text \<open>
  A handler answers with a body or raises \<open>HTTPException(status_code, detail)\<close>; the
  detail is a fixed or composed text, \<open>str(e)\<close> of a caught exception, or a text
  followed by \<open>str(e)\<close>.
\<close>

datatype detail = Msg ustr | StrOf py_exc | MsgStrOf ustr py_exc

datatype 'a result = HTTPError nat detail | Success 'a

text \<open>
  \<open>clear_history\<close>: \<open>save_history\<close> catches every exception itself, so the handler's
  own \<open>except\<close> branch (status 500) is never taken.
\<close>

definition clear_history :: "config \<Rightarrow> int \<Rightarrow> fs \<Rightarrow> ustr result \<times> fs" where
  "clear_history cfg now f =
     (let f' = save_history cfg now [] f
      in (Success (ascii ''History cleared successfully''), f'))"

section \<open>Filename sanitizer (main.py, lines 110 to 125)\<close>

text \<open>
  The character classes of the regular expressions. The reserved characters are the code
  points of less-than, greater-than, colon, double quote, slash, backslash, bar, question
  mark and star. The white-space class of a \<open>str\<close> pattern is the Unicode white space of
  \<open>str.isspace\<close>.
\<close>

definition is_reserved :: "nat \<Rightarrow> bool" where
  "is_reserved c = (c \<in> set [60, 62, 58, 34, 47, 92, 124, 63, 42])"

definition is_control :: "nat \<Rightarrow> bool" where
  "is_control c = (c \<le> 0x1f \<or> (0x7f \<le> c \<and> c \<le> 0x9f))"

definition is_space :: "nat \<Rightarrow> bool" where
  "is_space c =
     ((0x09 \<le> c \<and> c \<le> 0x0d) \<or> (0x1c \<le> c \<and> c \<le> 0x20) \<or> c = 0x85 \<or> c = 0xa0
      \<or> c = 0x1680 \<or> (0x2000 \<le> c \<and> c \<le> 0x200a) \<or> c = 0x2028 \<or> c = 0x2029
      \<or> c = 0x202f \<or> c = 0x205f \<or> c = 0x3000)"

text \<open>\<open>re.sub(r'[...]', '', s)\<close>: every character of the class is removed.\<close>

definition remove_chars :: "(nat \<Rightarrow> bool) \<Rightarrow> ustr \<Rightarrow> ustr" where
  "remove_chars cls s = filter (\<lambda>c. \<not> cls c) s"

text \<open>\<open>re.sub(r'X+', r, s)\<close>: every maximal run of the class becomes the one character \<open>r\<close>.\<close>

function collapse_runs :: "(nat \<Rightarrow> bool) \<Rightarrow> nat \<Rightarrow> ustr \<Rightarrow> ustr" where
  "collapse_runs cls r [] = []"
| "collapse_runs cls r (c # cs) =
     (if cls c then r # collapse_runs cls r (dropWhile cls cs)
      else c # collapse_runs cls r cs)"
  by pat_completeness auto
termination
  by (relation "measure (\<lambda>(cls, r, s). length s)")
     (auto simp: length_dropWhile_le le_imp_less_Suc)

text \<open>\<open>s.strip(chars)\<close>.\<close>

definition strip_chars :: "(nat \<Rightarrow> bool) \<Rightarrow> ustr \<Rightarrow> ustr" where
  "strip_chars cls s = rev (dropWhile cls (rev (dropWhile cls s)))"

text \<open>\<open>s.rfind(c)\<close> for one character: the last index of \<open>c\<close>, or \<open>-1\<close>.\<close>

fun rfind :: "ustr \<Rightarrow> nat \<Rightarrow> int" where
  "rfind [] c = - 1"
| "rfind (x # xs) c =
     (let r = rfind xs c in if 0 \<le> r then r + 1 else if x = c then 0 else - 1)"

text \<open>
  \<open>os.path.splitext\<close> of posixpath: the extension starts at the last dot after the last
  slash, unless only dots precede it in the last component.
\<close>

definition splitext :: "ustr \<Rightarrow> ustr \<times> ustr" where
  "splitext p =
     (let sepIndex = rfind p SLASH;
          dotIndex = rfind p DOT
      in if dotIndex > sepIndex
            \<and> list_ex (\<lambda>c. c \<noteq> DOT) (take (nat (dotIndex - (sepIndex + 1))) (drop (nat (sepIndex + 1)) p))
         then (take (nat dotIndex) p, drop (nat dotIndex) p)
         else (p, []))"

definition sanitize_filename :: "ustr \<Rightarrow> int \<Rightarrow> ustr" where
  "sanitize_filename filename max_length =
     (let filename = remove_chars is_reserved filename;
          filename = remove_chars is_control filename;
          filename = collapse_runs is_space UNDERSCORE filename;
          filename = collapse_runs (\<lambda>c. c = DOT) DOT filename;
          filename = collapse_runs (\<lambda>c. c = UNDERSCORE) UNDERSCORE filename;
          filename = strip_chars (\<lambda>c. c = DOT \<or> c = UNDERSCORE) filename;
          filename =
            (if int (length filename) > max_length then
               (case splitext filename of
                  (name, ext) \<Rightarrow> slice_to (max_length - int (length ext)) name @ ext)
             else filename)
      in if filename = [] then ascii ''download'' else filename)"

section \<open>Platform classifier (main.py, lines 170 to 190)\<close>

text \<open>\<open>needle in hay\<close> on strings.\<close>

fun str_in :: "ustr \<Rightarrow> ustr \<Rightarrow> bool" where
  "str_in needle [] = (needle = [])"
| "str_in needle (c # cs) = (prefix needle (c # cs) \<or> str_in needle cs)"

text \<open>
  \<open>str.lower\<close> is the Unicode case mapping of the Python run time; the classifier takes
  it as the parameter \<open>lower\<close>. \<open>ascii_lower\<close> is its restriction to ASCII text.
\<close>

definition ascii_lower :: "ustr \<Rightarrow> ustr" where
  "ascii_lower s = map (\<lambda>c. if 65 \<le> c \<and> c \<le> 90 then c + 32 else c) s"

definition get_platform_from_url :: "(ustr \<Rightarrow> ustr) \<Rightarrow> ustr \<Rightarrow> ustr" where
  "get_platform_from_url lower url =
     (let url_lower = lower url
      in if str_in (ascii ''youtube.com'') url_lower \<or> str_in (ascii ''youtu.be'') url_lower
           then ascii ''YouTube''
         else if str_in (ascii ''tiktok.com'') url_lower then ascii ''TikTok''
         else if str_in (ascii ''instagram.com'') url_lower then ascii ''Instagram''
         else if str_in (ascii ''twitter.com'') url_lower \<or> str_in (ascii ''x.com'') url_lower
           then ascii ''Twitter/X''
         else if str_in (ascii ''facebook.com'') url_lower \<or> str_in (ascii ''fb.watch'') url_lower
           then ascii ''Facebook''
         else if str_in (ascii ''vimeo.com'') url_lower then ascii ''Vimeo''
         else if str_in (ascii ''reddit.com'') url_lower then ascii ''Reddit''
         else if str_in (ascii ''twitch.tv'') url_lower then ascii ''Twitch''
         else ascii ''Other'')"

text \<open>
  The classifier as the specification words it: a fixed, ordered table of domain
  fragments and labels; the first row with a fragment occurring in the lowered URL gives
  the label, and the default is \<open>Other\<close>.
\<close>

definition platform_table :: "(ustr list \<times> ustr) list" where
  "platform_table =
     [([ascii ''youtube.com'', ascii ''youtu.be''], ascii ''YouTube''),
      ([ascii ''tiktok.com''], ascii ''TikTok''),
      ([ascii ''instagram.com''], ascii ''Instagram''),
      ([ascii ''twitter.com'', ascii ''x.com''], ascii ''Twitter/X''),
      ([ascii ''facebook.com'', ascii ''fb.watch''], ascii ''Facebook''),
      ([ascii ''vimeo.com''], ascii ''Vimeo''),
      ([ascii ''reddit.com''], ascii ''Reddit''),
      ([ascii ''twitch.tv''], ascii ''Twitch'')]"

definition row_matches :: "ustr \<Rightarrow> ustr list \<times> ustr \<Rightarrow> bool" where
  "row_matches u row = list_ex (\<lambda>frag. str_in frag u) (fst row)"

definition first_match_spec :: "(ustr \<Rightarrow> ustr) \<Rightarrow> ustr \<Rightarrow> ustr" where
  "first_match_spec lower url =
     (case find (row_matches (lower url)) platform_table of
        None \<Rightarrow> ascii ''Other''
      | Some row \<Rightarrow> snd row)"

section \<open>Statistics endpoint (main.py, lines 224 to 262)\<close>

text \<open>
  \<open>Path(DOWNLOAD_FOLDER).glob("*")\<close> yields the direct children of the folder: the paths
  made of the folder, a separator and one non-empty component. \<open>child_name\<close> gives that
  component, the \<open>name\<close> of the path.
\<close>

definition child_name :: "ustr \<Rightarrow> ustr \<Rightarrow> ustr option" where
  "child_name d p =
     (let pre = path_join d [];
          name = drop (length pre) p
      in if prefix pre p \<and> name \<noteq> [] \<and> SLASH \<notin> set name then Some name else None)"

text \<open>The test \<open>f.is_file() and not f.name.startswith('.')\<close> on a scanned entry.\<close>

definition visible_file :: "config \<Rightarrow> ustr \<times> node \<Rightarrow> bool" where
  "visible_file cfg e =
     (case child_name (DOWNLOAD_FOLDER cfg) (fst e) of
        None \<Rightarrow> False
      | Some name \<Rightarrow> is_file (snd e) \<and> \<not> prefix [DOT] name)"

record stats =
  total_downloads :: nat
  total_size_mb :: pyval
  available_space_mb :: pyval
  history_count :: nat
  last_download :: pyval

text \<open>
  \<open>is_file()\<close> of pathlib asks \<open>stat\<close> and raises again what \<open>stat\<close> raised (the
  errors that mean a missing file apart). \<open>scan_raises\<close> says that this happens for
  some scanned entry.
\<close>

definition scan_raises :: "config \<Rightarrow> fs \<Rightarrow> bool" where
  "scan_raises cfg f =
     list_ex (\<lambda>e. child_name (DOWNLOAD_FOLDER cfg) (fst e) \<noteq> None \<and> \<not> stat_ok (snd e)) f"

text \<open>
  \<open>avail\<close> is the free space reported by the operating system. The last entry of a
  non-empty history is asked for its \<open>timestamp\<close>. A raising \<open>is_file()\<close>, a total
  size too large to divide or a missing key is caught by the handler, which then answers
  with zeros.
\<close>

definition get_stats :: "config \<Rightarrow> pyval \<Rightarrow> fs \<Rightarrow> stats" where
  "get_stats cfg avail f =
     (let file_list = filter (visible_file cfg) f;
          total_files = length file_list;
          total_size = sum_list (map (\<lambda>e. fsize (snd e)) file_list);
          history = load_history cfg f;
          last = (if scan_raises cfg f then Inl PermissionError
                  else if int total_size \<ge> FILESIZE_OVERFLOW then Inl OverflowError
                  else if history = [] then Inr PNone
                  else (case map_of (last history) ''timestamp'' of
                          None \<Rightarrow> Inl KeyError
                        | Some t \<Rightarrow> Inr t))
      in case last of
           Inr t \<Rightarrow>
             \<lparr>total_downloads = total_files, total_size_mb = PMegabytes (int total_size),
              available_space_mb = avail, history_count = length history, last_download = t\<rparr>
         | Inl e \<Rightarrow>
             \<lparr>total_downloads = 0, total_size_mb = PInt 0, available_space_mb = PInt 0,
              history_count = 0, last_download = PNone\<rparr>)"

section \<open>Age-based sweep (main.py, lines 127 to 144)\<close>

text \<open>
  A \<open>datetime\<close> is counted in microseconds from \<open>datetime.min\<close>, the first instant of
  year 1; \<open>datetime.max\<close>, the last microsecond of year 9999, is \<open>DATETIME_MAX\<close>.
  \<open>timedelta(days=n)\<close> is \<open>n\<close> times 86400 seconds and raises \<open>OverflowError\<close> for more
  than 999999999 days either way; \<open>now - timedelta(days=...)\<close> raises \<open>OverflowError\<close>
  when the result leaves the range of \<open>datetime\<close>. Local time is UTC.
  \<open>datetime.fromtimestamp\<close> raises for a time outside the range and, since it looks one
  day back to tell a repeated local hour, for a time in the first day of year 1; it
  raises \<open>ValueError\<close>, or \<open>OverflowError\<close> or \<open>OSError\<close> for a time the platform cannot
  represent, which the handler does not tell apart: \<open>ValueError\<close> stands for the three.
\<close>

definition DATETIME_MAX :: int where
  "DATETIME_MAX = 315537897599999999"

definition FROMTIMESTAMP_MIN :: int where
  "FROMTIMESTAMP_MIN = 86400000000"

definition cutoff_time :: "config \<Rightarrow> int \<Rightarrow> py_exc + int" where
  "cutoff_time cfg now =
     (if \<bar>MAX_FILE_AGE_DAYS cfg\<bar> > 999999999 then Inl OverflowError
      else
        let cutoff = now - MAX_FILE_AGE_DAYS cfg * 86400000000
        in if 0 \<le> cutoff \<and> cutoff \<le> DATETIME_MAX then Inr cutoff else Inl OverflowError)"

definition fromtimestamp :: "int \<Rightarrow> py_exc + int" where
  "fromtimestamp t =
     (if FROMTIMESTAMP_MIN \<le> t \<and> t \<le> DATETIME_MAX then Inr t else Inl ValueError)"

text \<open>
  The body of the loop for one entry of the file system. An entry that the scan does not
  yield is kept. For a scanned entry \<open>is_file()\<close> comes first and raises when \<open>stat\<close>
  fails; a regular file without a leading dot has its time converted, which can raise; a
  file older than the cutoff is removed, and \<open>unlink\<close> raises when it cannot be removed.
\<close>

datatype verdict = Keep | Remove | Raise py_exc

definition visit :: "config \<Rightarrow> int \<Rightarrow> ustr \<times> node \<Rightarrow> verdict" where
  "visit cfg cutoff e =
     (if child_name (DOWNLOAD_FOLDER cfg) (fst e) = None then Keep
      else if \<not> stat_ok (snd e) then Raise PermissionError
      else if visible_file cfg e then
        (case fromtimestamp (mtime (snd e)) of
           Inl x \<Rightarrow> Raise x
         | Inr file_time \<Rightarrow>
             if file_time < cutoff then
               (if removable (snd e) then Remove else Raise PermissionError)
             else Keep)
      else Keep)"

text \<open>
  The loop over the scan. An exception leaves the loop, and the entries not yet visited
  stay as they are; the second component is the exception, if any.
\<close>

fun sweep :: "config \<Rightarrow> int \<Rightarrow> fs \<Rightarrow> fs \<times> py_exc option" where
  "sweep cfg cutoff [] = ([], None)"
| "sweep cfg cutoff (e # es) =
     (case visit cfg cutoff e of
        Keep \<Rightarrow> (case sweep cfg cutoff es of (es', r) \<Rightarrow> (e # es', r))
      | Remove \<Rightarrow> sweep cfg cutoff es
      | Raise x \<Rightarrow> (e # es, Some x))"

text \<open>
  \<open>clean_old_files\<close> logs the exception and returns; when the cutoff cannot be
  computed the loop is not entered.
\<close>

definition clean_old_files :: "config \<Rightarrow> int \<Rightarrow> fs \<Rightarrow> fs" where
  "clean_old_files cfg now f =
     (case cutoff_time cfg now of
        Inl x \<Rightarrow> f
      | Inr cutoff \<Rightarrow> fst (sweep cfg cutoff f))"

section \<open>Media endpoints (main.py, lines 446 to 482)\<close>

text \<open>\<open>os.path.basename\<close> of posixpath: what follows the last slash.\<close>

definition basename :: "ustr \<Rightarrow> ustr" where
  "basename p = drop (nat (rfind p SLASH + 1)) p"

record file_response =
  served_path :: ustr
  attachment_name :: ustr

definition serve_media :: "config \<Rightarrow> fs \<Rightarrow> ustr \<Rightarrow> file_response result" where
  "serve_media cfg f filename =
     (let filename = basename filename;
          file_path = path_join (DOWNLOAD_FOLDER cfg) filename
      in if \<not> path_exists f file_path then HTTPError 404 (Msg (ascii ''File not found''))
         else Success \<lparr>served_path = file_path, attachment_name = filename\<rparr>)"

text \<open>\<open>os.remove\<close>: only a regular file that may be removed is removed.\<close>

definition os_remove :: "fs \<Rightarrow> ustr \<Rightarrow> py_exc + fs" where
  "os_remove f p =
     (case map_of f p of
        None \<Rightarrow> Inl FileNotFoundError
      | Some n \<Rightarrow>
          if \<not> is_file n then Inl IsADirectoryError
          else if \<not> removable n then Inl PermissionError
          else Inr (AList.delete p f))"

definition delete_media :: "config \<Rightarrow> fs \<Rightarrow> ustr \<Rightarrow> ustr result \<times> fs" where
  "delete_media cfg f filename =
     (let filename = basename filename;
          file_path = path_join (DOWNLOAD_FOLDER cfg) filename
      in if \<not> path_exists f file_path then (HTTPError 404 (Msg (ascii ''File not found'')), f)
         else (case os_remove f file_path of
                 Inr f' \<Rightarrow> (Success (ascii ''File deleted successfully''), f')
               | Inl e \<Rightarrow> (HTTPError 500 (StrOf e), f)))"

section \<open>Download endpoint (main.py, lines 146 to 158 and 285 to 444)\<close>

definition get_format_string :: "ustr \<Rightarrow> ustr \<Rightarrow> ustr" where
  "get_format_string quality format_type =
     (if format_type = ascii ''audio'' then ascii ''bestaudio/best''
      else if quality = ascii ''best''
        then ascii ''bestvideo[ext=mp4]+bestaudio[ext=m4a]/best[ext=mp4]/best''
      else if quality = ascii ''high''
        then ascii ''bestvideo[height<=1080][ext=mp4]+bestaudio[ext=m4a]/best[height<=1080][ext=mp4]/best''
      else if quality = ascii ''medium''
        then ascii ''bestvideo[height<=720][ext=mp4]+bestaudio[ext=m4a]/best[height<=720][ext=mp4]/best''
      else if quality = ascii ''low''
        then ascii ''bestvideo[height<=480][ext=mp4]+bestaudio[ext=m4a]/best[height<=480][ext=mp4]/best''
      else ascii ''best'')"

text \<open>
  The extraction tool is outside the repository. What the handler reads from the
  \<open>info\<close> dictionary is a record of optional fields. The calls of the tool and the
  reading of its result raise the tool's \<open>DownloadError\<close>, raise another exception, or
  give the dictionary together with the file name \<open>prepare_filename\<close> gives for it. The
  text is \<open>str(e)\<close>.
\<close>

record info =
  title :: "ustr option"
  uploader :: "ustr option"
  duration :: "int option"
  thumbnail :: "ustr option"
  view_count :: "int option"
  height :: "int option"
  width :: "int option"
  fps :: "int option"
  filesize :: "int option"
  filesize_approx :: "int option"

datatype ydl_result =
    DownloadError ustr
  | OtherException ustr
  | Extracted info ustr

text \<open>\<open>x or d\<close>: \<open>None\<close>, the empty string and zero count as false.\<close>

definition str_or :: "ustr option \<Rightarrow> ustr \<Rightarrow> ustr" where
  "str_or x d = (case x of None \<Rightarrow> d | Some v \<Rightarrow> if v = [] then d else v)"

definition int_or :: "int option \<Rightarrow> int \<Rightarrow> int" where
  "int_or x d = (case x of None \<Rightarrow> d | Some v \<Rightarrow> if v = 0 then d else v)"

text \<open>Decimal text of an integer, for the f-string of the quality.\<close>

fun str_nat :: "nat \<Rightarrow> ustr" where
  "str_nat n = (if n < 10 then [48 + n] else str_nat (n div 10) @ [48 + n mod 10])"

definition str_int :: "int \<Rightarrow> ustr" where
  "str_int i = (if i < 0 then 45 # str_nat (nat (- i)) else str_nat (nat i))"

text \<open>\<open>base.rsplit('.', 1)[0]\<close>: what precedes the last dot, or all of it.\<close>

definition rsplit_dot_head :: "ustr \<Rightarrow> ustr" where
  "rsplit_dot_head base = (let i = rfind base DOT in if i < 0 then base else take (nat i) base)"

record download_body =
  body_filename :: ustr
  download_url :: ustr
  meta_title :: ustr
  meta_uploader :: ustr
  meta_duration :: int
  meta_thumbnail :: ustr
  meta_quality :: ustr
  meta_format_type :: ustr
  meta_filesize :: int
  meta_platform :: ustr
  meta_views :: int

text \<open>
  \<open>JSONResponse\<close> renders its content when it is constructed: \<open>json.dumps\<close> of the
  whole body, which raises \<open>ValueError\<close> for an integer that cannot be printed, and then
  the encoding of the text as UTF-8, which raises \<open>UnicodeEncodeError\<close> when a string
  of the body cannot be encoded.
\<close>

definition render_error :: "download_body \<Rightarrow> py_exc option" where
  "render_error b =
     (if \<not> (printable_int (meta_duration b) \<and> printable_int (meta_filesize b)
             \<and> printable_int (meta_views b))
        then Some ValueError
      else if \<not> (encodable (body_filename b) \<and> encodable (download_url b)
                  \<and> encodable (meta_title b) \<and> encodable (meta_uploader b)
                  \<and> encodable (meta_thumbnail b) \<and> encodable (meta_quality b)
                  \<and> encodable (meta_format_type b) \<and> encodable (meta_platform b))
        then Some UnicodeEncodeError
      else None)"


text \<open>
  \<open>download_media\<close>. The parameters \<open>lower\<close>, \<open>ydl\<close>, \<open>now\<close>, \<open>stamp\<close> and \<open>ident\<close>
  are the environment: the case mapping, the extraction tool (called with the format
  string, the format type and the URL) and the clock readings of \<open>add_to_history\<close>.
  \<open>describe_download\<close> is the part of the handler without effects (lines 362 to 433):
  from the result of the tool it computes the history entry and the body of the answer,
  or raises while it formats the quality or divides the file size, before anything is
  written. The \<open>try\<close> block also holds the call of \<open>add_to_history\<close>, which catches
  what loading and saving raise, and the construction of the response, which comes after
  it: an exception there is answered with status 500 when the entry is already written.
  Leaving the \<open>with\<close> block closes the tool, which is taken not to raise.
\<close>

definition describe_download ::
  "ustr \<Rightarrow> ustr \<Rightarrow> ustr \<Rightarrow> info \<Rightarrow> ustr \<Rightarrow> py_exc + entry \<times> download_body" where
  "describe_download platform url format_type meta prepared =
     (let filename =
            (if format_type = ascii ''audio'' then rsplit_dot_head prepared @ ascii ''.mp3''
             else prepared);
          base = sanitize_filename (basename filename) 100;
          title = take 150 (str_or (title meta) (ascii ''Unknown''));
          uploader = take 100 (str_or (uploader meta) (ascii ''Unknown''));
          duration = int_or (duration meta) 0;
          thumbnail = str_or (thumbnail meta) [];
          view_count = int_or (view_count meta) 0;
          height = int_or (height meta) 0;
          width = int_or (width meta) 0;
          fps = int_or (fps meta) 0;
          quality_info =
            (if format_type = ascii ''video'' then
               if height \<noteq> 0 \<and> width \<noteq> 0 then
                 str_int width @ ascii ''x'' @ str_int height
                   @ (if fps \<noteq> 0 then ascii '' @'' @ str_int fps @ ascii ''fps'' else [])
               else ascii ''Unknown''
             else ascii ''MP3 Audio (192kbps)'');
          filesize = int_or (filesize meta) (int_or (filesize_approx meta) 0);
          filesize_mb = (if filesize > 0 then PMegabytes filesize else PInt 0);
          history_entry =
            [(''url'', PStr url), (''title'', PStr title), (''filename'', PStr base),
             (''platform'', PStr platform), (''quality'', PStr quality_info),
             (''format'', PStr format_type), (''size_mb'', filesize_mb),
             (''duration'', PInt duration)];
          body =
            \<lparr>body_filename = base, download_url = ascii ''/media/'' @ base,
             meta_title = title, meta_uploader = uploader, meta_duration = duration,
             meta_thumbnail = thumbnail, meta_quality = quality_info,
             meta_format_type = format_type, meta_filesize = filesize,
             meta_platform = platform, meta_views = view_count\<rparr>
      in if format_type = ascii ''video'' \<and> height \<noteq> 0 \<and> width \<noteq> 0
            \<and> \<not> (printable_int width \<and> printable_int height
                   \<and> (if fps \<noteq> 0 then printable_int fps else True))
           then Inl ValueError
         else if filesize \<ge> FILESIZE_OVERFLOW then Inl OverflowError
         else Inr (history_entry, body))"

definition download_media ::
  "config \<Rightarrow> (ustr \<Rightarrow> ustr) \<Rightarrow> (ustr \<Rightarrow> ustr \<Rightarrow> ustr \<Rightarrow> ydl_result) \<Rightarrow> int \<Rightarrow> ustr \<Rightarrow> ustr
     \<Rightarrow> ustr \<Rightarrow> ustr \<Rightarrow> ustr \<Rightarrow> fs \<Rightarrow> download_body result \<times> fs" where
  "download_media cfg lower ydl now stamp ident url quality format_type f =
     (if \<not> (prefix (ascii ''http://'') url \<or> prefix (ascii ''https://'') url) then
        (HTTPError 400 (Msg (ascii ''URL must start with http:// or https://'')), f)
      else
        let platform = get_platform_from_url lower url;
            format_string = get_format_string quality format_type
        in case ydl format_string format_type url of
             DownloadError error_msg \<Rightarrow>
               (HTTPError 400 (Msg (ascii ''Download failed: '' @ error_msg)), f)
           | OtherException error_msg \<Rightarrow>
               (HTTPError 500 (Msg (ascii ''An unexpected error occurred: '' @ error_msg)), f)
           | Extracted meta prepared \<Rightarrow>
               (case describe_download platform url format_type meta prepared of
                  Inl x \<Rightarrow>
                    (HTTPError 500 (MsgStrOf (ascii ''An unexpected error occurred: '') x), f)
                | Inr (history_entry, body) \<Rightarrow>
                    let f' = add_to_history cfg now stamp ident history_entry f
                    in case render_error body of
                         None \<Rightarrow> (Success body, f')
                       | Some x \<Rightarrow>
                           (HTTPError 500
                              (MsgStrOf (ascii ''An unexpected error occurred: '') x), f')))"

text \<open>Concrete configurations and file-system states used to evaluate the handlers.\<close>

definition default_config :: config where
  "default_config =
     \<lparr>DOWNLOAD_FOLDER = ascii ''downloads'', MAX_FILE_AGE_DAYS = 1, MAX_HISTORY_ITEMS = 100\<rparr>"

definition entry_a :: entry where
  "entry_a = [(''url'', PStr (ascii ''https://a'')), (''timestamp'', PStr (ascii ''t1''))]"

definition entry_b :: entry where
  "entry_b = [(''url'', PStr (ascii ''https://b'')), (''timestamp'', PStr (ascii ''t2''))]"


definition history_node :: "entry list \<Rightarrow> node" where
  "history_node h = new_file 0 (JsonList h)"

definition media_node :: "int \<Rightarrow> node" where
  "media_node t = new_file t Bytes"

section \<open>Theorems\<close>

subsection \<open>Slices and evaluation\<close>

lemmas eval_defs = default_config_def entry_a_def entry_b_def history_node_def media_node_def
  new_file_def HISTORY_FILE_def path_join_def ascii_def SLASH_def DOT_def
  load_history_def save_history_def add_to_history_def stamp_entry_def get_history_def
  clear_history_def read_json_def write_json_def path_exists_def slice_from_def dump_error_def
  encodable_def Let_def

lemma slice_from_neg: "0 < n \<Longrightarrow> slice_from (- n) xs = drop (length xs - nat n) xs"
  by (auto simp: slice_from_def nat_diff_distrib' intro!: arg_cong2[where f=drop])

lemma slice_from_zero: "slice_from 0 xs = xs"
  by (simp add: slice_from_def)

lemma slice_from_suffix: "\<exists>k. slice_from j xs = drop k xs"
  by (auto simp: slice_from_def)




subsection \<open>Platform classifier\<close>

text \<open>
  Claim C3. For every URL, the classifier is a function of the lowered URL alone
  (deterministic and insensitive to case), and it computes exactly the first-match
  lookup in the fixed table of domain fragments (YouTube, TikTok, Instagram, Twitter/X,
  Facebook, Vimeo, Reddit, Twitch, in this order), with \<open>Other\<close> as the default when no
  fragment occurs.
\<close>

theorem get_platform_from_url_first_match:
  "get_platform_from_url lower url = first_match_spec lower url
   \<and> (lower url = lower url' \<longrightarrow>
        get_platform_from_url lower url = get_platform_from_url lower url')
   \<and> (find (row_matches (lower url)) platform_table = None \<longrightarrow>
        get_platform_from_url lower url = ascii ''Other'')"
  by (simp add: get_platform_from_url_def first_match_spec_def platform_table_def
      row_matches_def Let_def)

theorem get_platform_from_url_first_match_witness:
  "get_platform_from_url ascii_lower (ascii ''https://WWW.TikTok.com/@a?ref=youtube.com'')
     = ascii ''YouTube''
   \<and> get_platform_from_url ascii_lower (ascii ''https://vm.TIKTOK.com/x'')
     = get_platform_from_url ascii_lower (ascii ''https://vm.tiktok.com/x'')
   \<and> get_platform_from_url ascii_lower (ascii ''https://example.org/v'') = ascii ''Other''"
  using get_platform_from_url_first_match
    [of ascii_lower "ascii ''https://WWW.TikTok.com/@a?ref=youtube.com''"
        "ascii ''https://WWW.TikTok.com/@a?ref=youtube.com''"]
    get_platform_from_url_first_match
    [of ascii_lower "ascii ''https://vm.TIKTOK.com/x''" "ascii ''https://vm.tiktok.com/x''"]
    get_platform_from_url_first_match
    [of ascii_lower "ascii ''https://example.org/v''" "ascii ''https://example.org/v''"]
  by (simp add: get_platform_from_url_def first_match_spec_def platform_table_def
      row_matches_def ascii_lower_def ascii_def Let_def)

subsection \<open>History\<close>

text \<open>
  For a positive limit the history endpoint returns the last \<open>limit\<close> entries, newest
  first; for a positive cap \<open>save_history\<close> hands the last \<open>MAX_HISTORY_ITEMS\<close> entries
  to the writer.
\<close>

lemma get_history_positive:
  "0 < limit \<Longrightarrow>
   get_history cfg f limit
     = rev (drop (length (load_history cfg f) - nat limit) (load_history cfg f))"
  by (simp add: get_history_def slice_from_neg)

lemma kept_by_positive_cap:
  "0 < n \<Longrightarrow> length (slice_from (- n) h) \<le> nat n \<and> slice_from (- n) h = drop (length h - nat n) h"
  by (simp add: slice_from_neg)

text \<open>
  Claim C1, evaluated where the code departs from it. With \<open>MAX_HISTORY_ITEMS = 0\<close>
  the slice \<open>history[-0:]\<close> is the whole list: after one append to a stored history of
  one entry, two entries are persisted, more than the cap of zero.
\<close>

theorem add_to_history_cap_zero:
  "length (load_history (default_config\<lparr>MAX_HISTORY_ITEMS := 0\<rparr>)
     (add_to_history (default_config\<lparr>MAX_HISTORY_ITEMS := 0\<rparr>) 5 (ascii ''t3'') (ascii ''c0ffee00'')
        entry_b [(HISTORY_FILE default_config, history_node [entry_a])])) = 2"
  by (simp add: eval_defs)

text \<open>
  Claim C6, evaluated where the code departs from it. With \<open>limit = 0\<close> the slice
  \<open>history[-0:]\<close> is the whole list: the endpoint returns both stored entries, newest
  first, where the most recent zero entries are none.
\<close>

theorem get_history_limit_zero:
  "get_history default_config
     [(HISTORY_FILE default_config, history_node [entry_a, entry_b])] 0 = [entry_b, entry_a]"
  by (simp add: eval_defs)

text \<open>
  Claim C7, evaluated where the code departs from it. When the history file cannot be
  opened for writing, \<open>save_history\<close> swallows the exception: \<open>clear_history\<close> answers
  with success, the file system is unchanged, and a later load still returns the entry.
\<close>

theorem clear_history_reports_success_unwritten:
  "clear_history default_config 5
     [(HISTORY_FILE default_config, (history_node [entry_a])\<lparr>writable := False\<rparr>)]
   = (Success (ascii ''History cleared successfully''),
      [(HISTORY_FILE default_config, (history_node [entry_a])\<lparr>writable := False\<rparr>)])
   \<and> load_history default_config
       (snd (clear_history default_config 5
          [(HISTORY_FILE default_config, (history_node [entry_a])\<lparr>writable := False\<rparr>)]))
     = [entry_a]"
  by (simp add: eval_defs)

subsection \<open>Filename sanitizer\<close>

text \<open>
  The sanitizer on a name of three letters and an extension of a dot and one hundred
  letters, stage by stage: no stage before the length limit changes it.
\<close>

lemma long_ext_input: "ascii ''aaa.'' @ replicate 100 98 = [97, 97, 97, 46, 98, 98, 98, 98,
    98, 98, 98, 98, 98, 98, 98, 98, 98, 98, 98, 98, 98, 98, 98, 98, 98, 98, 98, 98, 98, 98,
    98, 98, 98, 98, 98, 98, 98, 98, 98, 98, 98, 98, 98, 98, 98, 98, 98, 98, 98, 98, 98, 98,
    98, 98, 98, 98, 98, 98, 98, 98, 98, 98, 98, 98, 98, 98, 98, 98, 98, 98, 98, 98, 98, 98,
    98, 98, 98, 98, 98, 98, 98, 98, 98, 98, 98, 98, 98, 98, 98, 98, 98, 98, 98, 98, 98, 98,
    98, 98, 98, 98, 98, 98, 98, 98]"
  by (simp add: ascii_def eval_nat_numeral del: replicate_Suc) (simp add: replicate_Suc)
lemma long_ext_output: "ascii ''aa.'' @ replicate 100 98 = [97, 97, 46, 98, 98, 98, 98, 98,
    98, 98, 98, 98, 98, 98, 98, 98, 98, 98, 98, 98, 98, 98, 98, 98, 98, 98, 98, 98, 98, 98,
    98, 98, 98, 98, 98, 98, 98, 98, 98, 98, 98, 98, 98, 98, 98, 98, 98, 98, 98, 98, 98, 98,
    98, 98, 98, 98, 98, 98, 98, 98, 98, 98, 98, 98, 98, 98, 98, 98, 98, 98, 98, 98, 98, 98,
    98, 98, 98, 98, 98, 98, 98, 98, 98, 98, 98, 98, 98, 98, 98, 98, 98, 98, 98, 98, 98, 98,
    98, 98, 98, 98, 98, 98, 98]"
  by (simp add: ascii_def eval_nat_numeral del: replicate_Suc) (simp add: replicate_Suc)
lemma long_ext_reserved: "remove_chars is_reserved [97, 97, 97, 46, 98, 98, 98, 98, 98, 98,
    98, 98, 98, 98, 98, 98, 98, 98, 98, 98, 98, 98, 98, 98, 98, 98, 98, 98, 98, 98, 98, 98,
    98, 98, 98, 98, 98, 98, 98, 98, 98, 98, 98, 98, 98, 98, 98, 98, 98, 98, 98, 98, 98, 98,
    98, 98, 98, 98, 98, 98, 98, 98, 98, 98, 98, 98, 98, 98, 98, 98, 98, 98, 98, 98, 98, 98,
    98, 98, 98, 98, 98, 98, 98, 98, 98, 98, 98, 98, 98, 98, 98, 98, 98, 98, 98, 98, 98, 98,
    98, 98, 98, 98, 98, 98] = [97, 97, 97, 46, 98, 98, 98, 98, 98, 98, 98, 98, 98, 98, 98,
    98, 98, 98, 98, 98, 98, 98, 98, 98, 98, 98, 98, 98, 98, 98, 98, 98, 98, 98, 98, 98, 98,
    98, 98, 98, 98, 98, 98, 98, 98, 98, 98, 98, 98, 98, 98, 98, 98, 98, 98, 98, 98, 98, 98,
    98, 98, 98, 98, 98, 98, 98, 98, 98, 98, 98, 98, 98, 98, 98, 98, 98, 98, 98, 98, 98, 98,
    98, 98, 98, 98, 98, 98, 98, 98, 98, 98, 98, 98, 98, 98, 98, 98, 98, 98, 98, 98, 98, 98,
    98]"
  by (simp add: remove_chars_def is_reserved_def)
lemma long_ext_control: "remove_chars is_control [97, 97, 97, 46, 98, 98, 98, 98, 98, 98,
    98, 98, 98, 98, 98, 98, 98, 98, 98, 98, 98, 98, 98, 98, 98, 98, 98, 98, 98, 98, 98, 98,
    98, 98, 98, 98, 98, 98, 98, 98, 98, 98, 98, 98, 98, 98, 98, 98, 98, 98, 98, 98, 98, 98,
    98, 98, 98, 98, 98, 98, 98, 98, 98, 98, 98, 98, 98, 98, 98, 98, 98, 98, 98, 98, 98, 98,
    98, 98, 98, 98, 98, 98, 98, 98, 98, 98, 98, 98, 98, 98, 98, 98, 98, 98, 98, 98, 98, 98,
    98, 98, 98, 98, 98, 98] = [97, 97, 97, 46, 98, 98, 98, 98, 98, 98, 98, 98, 98, 98, 98,
    98, 98, 98, 98, 98, 98, 98, 98, 98, 98, 98, 98, 98, 98, 98, 98, 98, 98, 98, 98, 98, 98,
    98, 98, 98, 98, 98, 98, 98, 98, 98, 98, 98, 98, 98, 98, 98, 98, 98, 98, 98, 98, 98, 98,
    98, 98, 98, 98, 98, 98, 98, 98, 98, 98, 98, 98, 98, 98, 98, 98, 98, 98, 98, 98, 98, 98,
    98, 98, 98, 98, 98, 98, 98, 98, 98, 98, 98, 98, 98, 98, 98, 98, 98, 98, 98, 98, 98, 98,
    98]"
  by (simp add: remove_chars_def is_control_def)
lemma long_ext_space: "collapse_runs is_space UNDERSCORE [97, 97, 97, 46, 98, 98, 98, 98,
    98, 98, 98, 98, 98, 98, 98, 98, 98, 98, 98, 98, 98, 98, 98, 98, 98, 98, 98, 98, 98, 98,
    98, 98, 98, 98, 98, 98, 98, 98, 98, 98, 98, 98, 98, 98, 98, 98, 98, 98, 98, 98, 98, 98,
    98, 98, 98, 98, 98, 98, 98, 98, 98, 98, 98, 98, 98, 98, 98, 98, 98, 98, 98, 98, 98, 98,
    98, 98, 98, 98, 98, 98, 98, 98, 98, 98, 98, 98, 98, 98, 98, 98, 98, 98, 98, 98, 98, 98,
    98, 98, 98, 98, 98, 98, 98, 98] = [97, 97, 97, 46, 98, 98, 98, 98, 98, 98, 98, 98, 98,
    98, 98, 98, 98, 98, 98, 98, 98, 98, 98, 98, 98, 98, 98, 98, 98, 98, 98, 98, 98, 98, 98,
    98, 98, 98, 98, 98, 98, 98, 98, 98, 98, 98, 98, 98, 98, 98, 98, 98, 98, 98, 98, 98, 98,
    98, 98, 98, 98, 98, 98, 98, 98, 98, 98, 98, 98, 98, 98, 98, 98, 98, 98, 98, 98, 98, 98,
    98, 98, 98, 98, 98, 98, 98, 98, 98, 98, 98, 98, 98, 98, 98, 98, 98, 98, 98, 98, 98, 98,
    98, 98, 98]"
  by (simp add: is_space_def)
lemma long_ext_dots: "collapse_runs (\<lambda>c. c = DOT) DOT [97, 97, 97, 46, 98, 98, 98,
    98, 98, 98, 98, 98, 98, 98, 98, 98, 98, 98, 98, 98, 98, 98, 98, 98, 98, 98, 98, 98, 98,
    98, 98, 98, 98, 98, 98, 98, 98, 98, 98, 98, 98, 98, 98, 98, 98, 98, 98, 98, 98, 98, 98,
    98, 98, 98, 98, 98, 98, 98, 98, 98, 98, 98, 98, 98, 98, 98, 98, 98, 98, 98, 98, 98, 98,
    98, 98, 98, 98, 98, 98, 98, 98, 98, 98, 98, 98, 98, 98, 98, 98, 98, 98, 98, 98, 98, 98,
    98, 98, 98, 98, 98, 98, 98, 98, 98] = [97, 97, 97, 46, 98, 98, 98, 98, 98, 98, 98, 98,
    98, 98, 98, 98, 98, 98, 98, 98, 98, 98, 98, 98, 98, 98, 98, 98, 98, 98, 98, 98, 98, 98,
    98, 98, 98, 98, 98, 98, 98, 98, 98, 98, 98, 98, 98, 98, 98, 98, 98, 98, 98, 98, 98, 98,
    98, 98, 98, 98, 98, 98, 98, 98, 98, 98, 98, 98, 98, 98, 98, 98, 98, 98, 98, 98, 98, 98,
    98, 98, 98, 98, 98, 98, 98, 98, 98, 98, 98, 98, 98, 98, 98, 98, 98, 98, 98, 98, 98, 98,
    98, 98, 98, 98]"
  by (simp add: DOT_def)
lemma long_ext_underscores: "collapse_runs (\<lambda>c. c = UNDERSCORE) UNDERSCORE [97, 97,
    97, 46, 98, 98, 98, 98, 98, 98, 98, 98, 98, 98, 98, 98, 98, 98, 98, 98, 98, 98, 98, 98,
    98, 98, 98, 98, 98, 98, 98, 98, 98, 98, 98, 98, 98, 98, 98, 98, 98, 98, 98, 98, 98, 98,
    98, 98, 98, 98, 98, 98, 98, 98, 98, 98, 98, 98, 98, 98, 98, 98, 98, 98, 98, 98, 98, 98,
    98, 98, 98, 98, 98, 98, 98, 98, 98, 98, 98, 98, 98, 98, 98, 98, 98, 98, 98, 98, 98, 98,
    98, 98, 98, 98, 98, 98, 98, 98, 98, 98, 98, 98, 98, 98] = [97, 97, 97, 46, 98, 98, 98,
    98, 98, 98, 98, 98, 98, 98, 98, 98, 98, 98, 98, 98, 98, 98, 98, 98, 98, 98, 98, 98, 98,
    98, 98, 98, 98, 98, 98, 98, 98, 98, 98, 98, 98, 98, 98, 98, 98, 98, 98, 98, 98, 98, 98,
    98, 98, 98, 98, 98, 98, 98, 98, 98, 98, 98, 98, 98, 98, 98, 98, 98, 98, 98, 98, 98, 98,
    98, 98, 98, 98, 98, 98, 98, 98, 98, 98, 98, 98, 98, 98, 98, 98, 98, 98, 98, 98, 98, 98,
    98, 98, 98, 98, 98, 98, 98, 98, 98]"
  by (simp add: UNDERSCORE_def)
lemma long_ext_strip: "strip_chars (\<lambda>c. c = DOT \<or> c = UNDERSCORE) [97, 97, 97,
    46, 98, 98, 98, 98, 98, 98, 98, 98, 98, 98, 98, 98, 98, 98, 98, 98, 98, 98, 98, 98, 98,
    98, 98, 98, 98, 98, 98, 98, 98, 98, 98, 98, 98, 98, 98, 98, 98, 98, 98, 98, 98, 98, 98,
    98, 98, 98, 98, 98, 98, 98, 98, 98, 98, 98, 98, 98, 98, 98, 98, 98, 98, 98, 98, 98, 98,
    98, 98, 98, 98, 98, 98, 98, 98, 98, 98, 98, 98, 98, 98, 98, 98, 98, 98, 98, 98, 98, 98,
    98, 98, 98, 98, 98, 98, 98, 98, 98, 98, 98, 98, 98] = [97, 97, 97, 46, 98, 98, 98, 98,
    98, 98, 98, 98, 98, 98, 98, 98, 98, 98, 98, 98, 98, 98, 98, 98, 98, 98, 98, 98, 98, 98,
    98, 98, 98, 98, 98, 98, 98, 98, 98, 98, 98, 98, 98, 98, 98, 98, 98, 98, 98, 98, 98, 98,
    98, 98, 98, 98, 98, 98, 98, 98, 98, 98, 98, 98, 98, 98, 98, 98, 98, 98, 98, 98, 98, 98,
    98, 98, 98, 98, 98, 98, 98, 98, 98, 98, 98, 98, 98, 98, 98, 98, 98, 98, 98, 98, 98, 98,
    98, 98, 98, 98, 98, 98, 98, 98]"
  by (simp add: DOT_def UNDERSCORE_def strip_chars_def)
lemma long_ext_splitext: "splitext [97, 97, 97, 46, 98, 98, 98, 98, 98, 98, 98, 98, 98, 98,
    98, 98, 98, 98, 98, 98, 98, 98, 98, 98, 98, 98, 98, 98, 98, 98, 98, 98, 98, 98, 98, 98,
    98, 98, 98, 98, 98, 98, 98, 98, 98, 98, 98, 98, 98, 98, 98, 98, 98, 98, 98, 98, 98, 98,
    98, 98, 98, 98, 98, 98, 98, 98, 98, 98, 98, 98, 98, 98, 98, 98, 98, 98, 98, 98, 98, 98,
    98, 98, 98, 98, 98, 98, 98, 98, 98, 98, 98, 98, 98, 98, 98, 98, 98, 98, 98, 98, 98, 98,
    98, 98] = ([97, 97, 97], [46, 98, 98, 98, 98, 98, 98, 98, 98, 98, 98, 98, 98, 98, 98,
    98, 98, 98, 98, 98, 98, 98, 98, 98, 98, 98, 98, 98, 98, 98, 98, 98, 98, 98, 98, 98, 98,
    98, 98, 98, 98, 98, 98, 98, 98, 98, 98, 98, 98, 98, 98, 98, 98, 98, 98, 98, 98, 98, 98,
    98, 98, 98, 98, 98, 98, 98, 98, 98, 98, 98, 98, 98, 98, 98, 98, 98, 98, 98, 98, 98, 98,
    98, 98, 98, 98, 98, 98, 98, 98, 98, 98, 98, 98, 98, 98, 98, 98, 98, 98, 98, 98])"
  by (simp add: DOT_def SLASH_def splitext_def Let_def)
lemma long_ext_too_long: "int (length [97, 97, 97, 46, 98, 98, 98, 98, 98, 98, 98, 98, 98,
    98, 98, 98, 98, 98, 98, 98, 98, 98, 98, 98, 98, 98, 98, 98, 98, 98, 98, 98, 98, 98, 98,
    98, 98, 98, 98, 98, 98, 98, 98, 98, 98, 98, 98, 98, 98, 98, 98, 98, 98, 98, 98, 98, 98,
    98, 98, 98, 98, 98, 98, 98, 98, 98, 98, 98, 98, 98, 98, 98, 98, 98, 98, 98, 98, 98, 98,
    98, 98, 98, 98, 98, 98, 98, 98, 98, 98, 98, 98, 98, 98, 98, 98, 98, 98, 98, 98, 98, 98,
    98, 98, 98]) > 100"
  by simp
lemma long_ext_cut: "slice_to (100 - int (length [46, 98, 98, 98, 98, 98, 98, 98, 98, 98,
    98, 98, 98, 98, 98, 98, 98, 98, 98, 98, 98, 98, 98, 98, 98, 98, 98, 98, 98, 98, 98, 98,
    98, 98, 98, 98, 98, 98, 98, 98, 98, 98, 98, 98, 98, 98, 98, 98, 98, 98, 98, 98, 98, 98,
    98, 98, 98, 98, 98, 98, 98, 98, 98, 98, 98, 98, 98, 98, 98, 98, 98, 98, 98, 98, 98, 98,
    98, 98, 98, 98, 98, 98, 98, 98, 98, 98, 98, 98, 98, 98, 98, 98, 98, 98, 98, 98, 98, 98,
    98, 98, 98])) [97, 97, 97] = [97, 97]"
  by (simp add: slice_to_def)
lemma long_ext_joined: "[97, 97] @ [46, 98, 98, 98, 98, 98, 98, 98, 98, 98, 98, 98, 98, 98,
    98, 98, 98, 98, 98, 98, 98, 98, 98, 98, 98, 98, 98, 98, 98, 98, 98, 98, 98, 98, 98, 98,
    98, 98, 98, 98, 98, 98, 98, 98, 98, 98, 98, 98, 98, 98, 98, 98, 98, 98, 98, 98, 98, 98,
    98, 98, 98, 98, 98, 98, 98, 98, 98, 98, 98, 98, 98, 98, 98, 98, 98, 98, 98, 98, 98, 98,
    98, 98, 98, 98, 98, 98, 98, 98, 98, 98, 98, 98, 98, 98, 98, 98, 98, 98, 98, 98, 98] =
    [97, 97, 46, 98, 98, 98, 98, 98, 98, 98, 98, 98, 98, 98, 98, 98, 98, 98, 98, 98, 98, 98,
    98, 98, 98, 98, 98, 98, 98, 98, 98, 98, 98, 98, 98, 98, 98, 98, 98, 98, 98, 98, 98, 98,
    98, 98, 98, 98, 98, 98, 98, 98, 98, 98, 98, 98, 98, 98, 98, 98, 98, 98, 98, 98, 98, 98,
    98, 98, 98, 98, 98, 98, 98, 98, 98, 98, 98, 98, 98, 98, 98, 98, 98, 98, 98, 98, 98, 98,
    98, 98, 98, 98, 98, 98, 98, 98, 98, 98, 98, 98, 98, 98, 98]"
  by simp
lemma long_ext_nonempty: "[97, 97, 46, 98, 98, 98, 98, 98, 98, 98, 98, 98, 98, 98, 98, 98,
    98, 98, 98, 98, 98, 98, 98, 98, 98, 98, 98, 98, 98, 98, 98, 98, 98, 98, 98, 98, 98, 98,
    98, 98, 98, 98, 98, 98, 98, 98, 98, 98, 98, 98, 98, 98, 98, 98, 98, 98, 98, 98, 98, 98,
    98, 98, 98, 98, 98, 98, 98, 98, 98, 98, 98, 98, 98, 98, 98, 98, 98, 98, 98, 98, 98, 98,
    98, 98, 98, 98, 98, 98, 98, 98, 98, 98, 98, 98, 98, 98, 98, 98, 98, 98, 98, 98, 98]
    \<noteq> []"
  by simp

text \<open>
  Claim C2, evaluated where the code departs from it. With the default
  \<open>max_length = 100\<close> and an extension of 101 characters, \<open>max_length - len(ext)\<close> is
  \<open>-1\<close> and \<open>name[:-1]\<close> only drops the last character of the name: the result keeps
  two letters of the name and the whole extension, 103 characters, more than
  \<open>max_length\<close>.
\<close>

theorem sanitize_filename_exceeds_max_length:
  "sanitize_filename (ascii ''aaa.'' @ replicate 100 98) 100 = ascii ''aa.'' @ replicate 100 98
   \<and> length (sanitize_filename (ascii ''aaa.'' @ replicate 100 98) 100) = 103"
proof -
  have result: "sanitize_filename (ascii ''aaa.'' @ replicate 100 98) 100
          = ascii ''aa.'' @ replicate 100 98"
    unfolding sanitize_filename_def long_ext_input long_ext_output
    by (simp only: Let_def long_ext_reserved long_ext_control long_ext_space long_ext_dots
        long_ext_underscores long_ext_strip long_ext_splitext long_ext_too_long long_ext_cut
        long_ext_joined long_ext_nonempty if_True if_False prod.case)
  have "length (ascii ''aa.'' @ replicate 100 98) = 103"
    by (simp add: ascii_def)
  with result show ?thesis
    by (simp only: simp_thms)
qed

text \<open>
  The cut of the length limit can also fall right after a dot of the name: with
  \<open>max_length = 5\<close> the name \<open>ab.c\<close> is cut to \<open>ab.\<close> and the extension \<open>.d\<close>
  is appended, which leaves a run of two dots in the result.
\<close>

lemma sanitize_filename_cut_at_dot:
  "sanitize_filename (ascii ''ab.c.d'') 5 = ascii ''ab..d''"
proof -
  let ?s = "[97, 98, 46, 99, 46, 100] :: nat list"
  have inp: "ascii ''ab.c.d'' = ?s" and out: "ascii ''ab..d'' = [97, 98, 46, 46, 100]"
    by (simp_all add: ascii_def)
  have reserved: "remove_chars is_reserved ?s = ?s"
    by (simp add: remove_chars_def is_reserved_def)
  have control: "remove_chars is_control ?s = ?s"
    by (simp add: remove_chars_def is_control_def)
  have space: "collapse_runs is_space UNDERSCORE ?s = ?s"
    by (simp add: is_space_def)
  have dots: "collapse_runs (\<lambda>c. c = DOT) DOT ?s = ?s"
    by (simp add: DOT_def)
  have underscores: "collapse_runs (\<lambda>c. c = UNDERSCORE) UNDERSCORE ?s = ?s"
    by (simp add: UNDERSCORE_def)
  have strip: "strip_chars (\<lambda>c. c = DOT \<or> c = UNDERSCORE) ?s = ?s"
    by (simp add: strip_chars_def DOT_def UNDERSCORE_def)
  have split: "splitext ?s = ([97, 98, 46, 99], [46, 100])"
    by (simp add: splitext_def DOT_def SLASH_def Let_def)
  have long: "int (length ?s) > 5"
    by simp
  have cut: "slice_to (5 - int (length [46, 100 :: nat])) [97, 98, 46, 99 :: nat] = [97, 98, 46]"
    by (simp add: slice_to_def)
  have joined: "[97, 98, 46] @ [46, 100] = [97, 98, 46, 46, 100 :: nat]"
    by simp
  have nonempty: "[97, 98, 46, 46, 100 :: nat] \<noteq> []"
    by simp
  show ?thesis
    unfolding sanitize_filename_def inp out
    by (simp only: Let_def reserved control space dots underscores strip split long cut joined
        nonempty if_True if_False prod.case)
qed

subsection \<open>Reading a missing or corrupt history\<close>

text \<open>
  Claim C10. When the history file is absent, is not a readable regular file, or does
  not hold valid JSON, \<open>load_history\<close> returns the empty list (the exception of the
  read is caught), the history endpoint returns no entries and the statistics report a
  history count of zero and no last download.
\<close>

theorem load_history_total:
  assumes "map_of f (HISTORY_FILE cfg) = None
           \<or> (\<exists>n. map_of f (HISTORY_FILE cfg) = Some n
                 \<and> (\<not> is_file n \<or> \<not> readable n \<or> content n = Bytes))"
  shows "load_history cfg f = []
         \<and> get_history cfg f limit = []
         \<and> history_count (get_stats cfg avail f) = 0
         \<and> last_download (get_stats cfg avail f) = PNone"
proof -
  from assms have empty: "load_history cfg f = []"
    by (auto simp: load_history_def path_exists_def read_json_def)
  then show ?thesis
    by (simp add: get_history_def slice_from_def get_stats_def Let_def)
qed

theorem load_history_total_witness:
  "load_history default_config [] = []
   \<and> load_history default_config
        [(HISTORY_FILE default_config, (history_node [entry_a])\<lparr>readable := False\<rparr>)] = []
   \<and> get_history default_config
        [(HISTORY_FILE default_config, media_node 0)] 50 = []
   \<and> history_count (get_stats default_config (PInt 0)
        [(HISTORY_FILE default_config, media_node 0)]) = 0"
  using load_history_total [of "[]" default_config 50 "PInt 0"]
    load_history_total
      [of "[(HISTORY_FILE default_config, (history_node [entry_a])\<lparr>readable := False\<rparr>)]"
          default_config 50 "PInt 0"]
    load_history_total [of "[(HISTORY_FILE default_config, media_node 0)]" default_config 50 "PInt 0"]
  by (simp add: history_node_def media_node_def new_file_def)

subsection \<open>Download endpoint\<close>












subsection \<open>Age-based sweep\<close>

text \<open>
  The history file is a child of the download folder whose name starts with a dot, so
  the sweep never removes it. The loop keeps the order of the scan; it removes nothing
  once an operation has raised.
\<close>

lemma history_path_split:
  "HISTORY_FILE cfg = path_join (DOWNLOAD_FOLDER cfg) [] @ ascii ''.history.json''"
  by (simp add: HISTORY_FILE_def path_join_def ascii_def SLASH_def)

lemma history_not_visible: "\<not> visible_file cfg (HISTORY_FILE cfg, n)"
  by (simp add: visible_file_def child_name_def history_path_split Let_def)
     (simp add: ascii_def DOT_def)

lemma history_kept: "visit cfg c (HISTORY_FILE cfg, n) \<noteq> Remove"
  by (simp add: visit_def history_not_visible)

lemma visit_Remove_iff:
  "visit cfg c e = Remove \<longleftrightarrow>
     (\<exists>name. child_name (DOWNLOAD_FOLDER cfg) (fst e) = Some name \<and> \<not> prefix [DOT] name)
     \<and> stat_ok (snd e) \<and> is_file (snd e)
     \<and> FROMTIMESTAMP_MIN \<le> mtime (snd e) \<and> mtime (snd e) \<le> DATETIME_MAX \<and> mtime (snd e) < c
     \<and> removable (snd e)"
  by (auto simp: visit_def visible_file_def fromtimestamp_def split: option.splits)

lemma sweep_subseq: "subseq (fst (sweep cfg c f)) f"
  by (induction f) (auto split: prod.splits verdict.splits)

lemma sweep_keeps_member:
  "e \<in> set f \<Longrightarrow> visit cfg c e \<noteq> Remove \<Longrightarrow> e \<in> set (fst (sweep cfg c f))"
  by (induction f) (auto split: prod.splits verdict.splits)

lemma sweep_no_raise:
  "\<forall>e\<in>set f. \<forall>x. visit cfg c e \<noteq> Raise x \<Longrightarrow>
   sweep cfg c f = (filter (\<lambda>e. visit cfg c e \<noteq> Remove) f, None)"
  by (induction f) (auto split: prod.splits verdict.splits)

lemma sweep_raise:
  "\<forall>d\<in>set pre. \<forall>y. visit cfg c d \<noteq> Raise y \<Longrightarrow> visit cfg c e = Raise x \<Longrightarrow>
   sweep cfg c (pre @ e # post) = (filter (\<lambda>d. visit cfg c d \<noteq> Remove) pre @ e # post, Some x)"
  by (induction pre) (auto split: prod.splits verdict.splits)

lemma sweep_map_of:
  "\<forall>n. visit cfg c (k, n) \<noteq> Remove \<Longrightarrow> map_of (fst (sweep cfg c f)) k = map_of f k"
  by (induction f) (auto split: prod.splits verdict.splits)

lemma load_history_cong:
  "map_of f' (HISTORY_FILE cfg) = map_of f (HISTORY_FILE cfg) \<Longrightarrow>
   load_history cfg f' = load_history cfg f"
  by (simp add: load_history_def path_exists_def read_json_def)

lemma clean_old_files_history:
  "map_of (clean_old_files cfg now f) (HISTORY_FILE cfg) = map_of f (HISTORY_FILE cfg)"
  by (simp add: clean_old_files_def sweep_map_of history_kept split: sum.splits)

lemma newer_not_removed: "c \<le> mtime (snd e) \<Longrightarrow> visit cfg c e \<noteq> Remove"
  by (simp add: visit_Remove_iff)

lemmas fs_eval = default_config_def history_node_def media_node_def new_file_def entry_a_def
  HISTORY_FILE_def path_join_def ascii_def SLASH_def DOT_def clean_old_files_def cutoff_time_def
  fromtimestamp_def DATETIME_MAX_def FROMTIMESTAMP_MIN_def visit_def visible_file_def child_name_def Let_def

text \<open>
  Claim C4 as stated, refuted. Two regular files \<open>a.mp4\<close> and \<open>b.mp4\<close> of the download
  folder are both older than the cutoff and carry no leading dot; removing the first
  raises. The exception leaves the loop and is logged, and \<open>b.mp4\<close> is still there after
  the sweep, although the claim counts it among the files deleted.
\<close>

theorem clean_old_files_stops_at_failure:
  "clean_old_files default_config 63929347200000000
     [(ascii ''downloads/a.mp4'', (media_node 63929174400000000)\<lparr>removable := False\<rparr>),
          (ascii ''downloads/b.mp4'', media_node 63929174400000000)]
   = [(ascii ''downloads/a.mp4'', (media_node 63929174400000000)\<lparr>removable := False\<rparr>),
          (ascii ''downloads/b.mp4'', media_node 63929174400000000)]
   \<and> cutoff_time default_config 63929347200000000 = Inr 63929260800000000
   \<and> child_name (DOWNLOAD_FOLDER default_config) (ascii ''downloads/b.mp4'') = Some (ascii ''b.mp4'')
   \<and> \<not> prefix [DOT] (ascii ''b.mp4'')
   \<and> is_file (media_node 63929174400000000)
   \<and> mtime (media_node 63929174400000000) < 63929260800000000"
  by (simp add: fs_eval)

text \<open>
  Claim C4, amended. The sweep only removes entries: what remains is a subsequence of
  the scan. The loop removes an entry exactly when it is a child of the folder whose
  name does not start with a dot, \<open>stat\<close> succeeds on it, it is a regular file, its
  time can be converted and is older than the cutoff (now minus \<open>MAX_FILE_AGE_DAYS\<close>
  days), and \<open>unlink\<close> succeeds. Every entry that the loop would not remove stays, in
  particular every entry at or newer than the cutoff. When no operation raises, exactly
  those files are deleted. When reading the status or the time of an entry or removing it
  raises, the sweep stops there: the files due before that entry are deleted, that entry
  and everything after it stay. When the cutoff itself cannot be computed nothing is
  deleted. The history file is neither deleted nor modified, and the history loaded after
  the sweep is the one before it.
\<close>

theorem clean_old_files_sweep:
  "subseq (clean_old_files cfg now f) f
   \<and> (\<forall>c e. visit cfg c e = Remove \<longleftrightarrow>
        (\<exists>name. child_name (DOWNLOAD_FOLDER cfg) (fst e) = Some name \<and> \<not> prefix [DOT] name)
        \<and> stat_ok (snd e) \<and> is_file (snd e)
        \<and> FROMTIMESTAMP_MIN \<le> mtime (snd e) \<and> mtime (snd e) \<le> DATETIME_MAX \<and> mtime (snd e) < c
        \<and> removable (snd e))
   \<and> (\<forall>e\<in>set f. (\<forall>c. cutoff_time cfg now = Inr c \<longrightarrow> visit cfg c e \<noteq> Remove) \<longrightarrow>
        e \<in> set (clean_old_files cfg now f))
   \<and> (\<forall>e\<in>set f. (\<forall>c. cutoff_time cfg now = Inr c \<longrightarrow> c \<le> mtime (snd e)) \<longrightarrow>
        e \<in> set (clean_old_files cfg now f))
   \<and> (\<forall>c. cutoff_time cfg now = Inr c \<and> (\<forall>e\<in>set f. \<forall>x. visit cfg c e \<noteq> Raise x) \<longrightarrow>
        clean_old_files cfg now f = filter (\<lambda>e. visit cfg c e \<noteq> Remove) f)
   \<and> (\<forall>c pre e post x.
        cutoff_time cfg now = Inr c \<and> f = pre @ e # post
        \<and> (\<forall>d\<in>set pre. \<forall>y. visit cfg c d \<noteq> Raise y) \<and> visit cfg c e = Raise x \<longrightarrow>
        clean_old_files cfg now f = filter (\<lambda>d. visit cfg c d \<noteq> Remove) pre @ e # post)
   \<and> (\<forall>x. cutoff_time cfg now = Inl x \<longrightarrow> clean_old_files cfg now f = f)
   \<and> map_of (clean_old_files cfg now f) (HISTORY_FILE cfg) = map_of f (HISTORY_FILE cfg)
   \<and> load_history cfg (clean_old_files cfg now f) = load_history cfg f"
proof -
  have only_removes: "subseq (clean_old_files cfg now f) f"
    by (simp add: clean_old_files_def sweep_subseq split: sum.splits)
  have stays: "\<forall>e\<in>set f. (\<forall>c. cutoff_time cfg now = Inr c \<longrightarrow> visit cfg c e \<noteq> Remove) \<longrightarrow>
        e \<in> set (clean_old_files cfg now f)"
    by (auto simp: clean_old_files_def sweep_keeps_member split: sum.splits)
  have newer: "\<forall>e\<in>set f. (\<forall>c. cutoff_time cfg now = Inr c \<longrightarrow> c \<le> mtime (snd e)) \<longrightarrow>
        e \<in> set (clean_old_files cfg now f)"
    by (auto simp: clean_old_files_def sweep_keeps_member newer_not_removed split: sum.splits)
  have complete: "\<forall>c. cutoff_time cfg now = Inr c \<and> (\<forall>e\<in>set f. \<forall>x. visit cfg c e \<noteq> Raise x) \<longrightarrow>
        clean_old_files cfg now f = filter (\<lambda>e. visit cfg c e \<noteq> Remove) f"
    by (simp add: clean_old_files_def sweep_no_raise)
  have stops: "\<forall>c pre e post x.
        cutoff_time cfg now = Inr c \<and> f = pre @ e # post
        \<and> (\<forall>d\<in>set pre. \<forall>y. visit cfg c d \<noteq> Raise y) \<and> visit cfg c e = Raise x \<longrightarrow>
        clean_old_files cfg now f = filter (\<lambda>d. visit cfg c d \<noteq> Remove) pre @ e # post"
    by (simp add: clean_old_files_def sweep_raise)
  have overflow: "\<forall>x. cutoff_time cfg now = Inl x \<longrightarrow> clean_old_files cfg now f = f"
    by (simp add: clean_old_files_def)
  show ?thesis
    using only_removes stays newer complete stops overflow clean_old_files_history [of cfg now f]
      load_history_cong [OF clean_old_files_history, of cfg now f] visit_Remove_iff
    by (intro conjI) blast+
qed

theorem clean_old_files_sweep_witness:
  "clean_old_files default_config 63929347200000000
     [(ascii ''downloads/old.mp4'', media_node 63929174400000000),
          (ascii ''downloads/new.mp4'', media_node 63929343600000000),
          (HISTORY_FILE default_config, history_node [entry_a])]
   = [(ascii ''downloads/new.mp4'', media_node 63929343600000000),
      (HISTORY_FILE default_config, history_node [entry_a])]
   \<and> clean_old_files default_config 63929347200000000
     [(ascii ''downloads/a.mp4'', (media_node 63929174400000000)\<lparr>removable := False\<rparr>),
          (ascii ''downloads/b.mp4'', media_node 63929174400000000)]
   = [(ascii ''downloads/a.mp4'', (media_node 63929174400000000)\<lparr>removable := False\<rparr>),
          (ascii ''downloads/b.mp4'', media_node 63929174400000000)]
   \<and> clean_old_files (default_config\<lparr>MAX_FILE_AGE_DAYS := 800000\<rparr>) 63929347200000000
     [(ascii ''downloads/old.mp4'', media_node 63929174400000000),
          (ascii ''downloads/new.mp4'', media_node 63929343600000000),
          (HISTORY_FILE default_config, history_node [entry_a])]
   = [(ascii ''downloads/old.mp4'', media_node 63929174400000000),
          (ascii ''downloads/new.mp4'', media_node 63929343600000000),
          (HISTORY_FILE default_config, history_node [entry_a])]"
proof -
  let ?f = "[(ascii ''downloads/old.mp4'', media_node 63929174400000000),
          (ascii ''downloads/new.mp4'', media_node 63929343600000000),
          (HISTORY_FILE default_config, history_node [entry_a])]"
  let ?g = "[(ascii ''downloads/a.mp4'', (media_node 63929174400000000)\<lparr>removable := False\<rparr>),
          (ascii ''downloads/b.mp4'', media_node 63929174400000000)]"
  let ?far = "default_config\<lparr>MAX_FILE_AGE_DAYS := 800000\<rparr>"
  have cutoff: "cutoff_time default_config 63929347200000000 = Inr 63929260800000000"
    by (simp add: fs_eval)
  have quiet: "\<forall>e\<in>set ?f. \<forall>x. visit default_config 63929260800000000 e \<noteq> Raise x"
    by (simp add: fs_eval)
  have "clean_old_files default_config 63929347200000000 ?f
          = filter (\<lambda>e. visit default_config 63929260800000000 e \<noteq> Remove) ?f"
    using clean_old_files_sweep [of default_config 63929347200000000 ?f] cutoff quiet by blast
  then have first: "clean_old_files default_config 63929347200000000 ?f
      = [(ascii ''downloads/new.mp4'', media_node 63929343600000000),
         (HISTORY_FILE default_config, history_node [entry_a])]"
    by (simp add: fs_eval)
  have raises: "visit default_config 63929260800000000
      (ascii ''downloads/a.mp4'', (media_node 63929174400000000)\<lparr>removable := False\<rparr>)
        = Raise PermissionError"
    by (simp add: fs_eval)
  have split: "?g = [] @ (ascii ''downloads/a.mp4'', (media_node 63929174400000000)\<lparr>removable := False\<rparr>)
      # [(ascii ''downloads/b.mp4'', media_node 63929174400000000)]"
    by simp
  have "clean_old_files default_config 63929347200000000 ?g
          = filter (\<lambda>d. visit default_config 63929260800000000 d \<noteq> Remove) []
            @ (ascii ''downloads/a.mp4'', (media_node 63929174400000000)\<lparr>removable := False\<rparr>)
            # [(ascii ''downloads/b.mp4'', media_node 63929174400000000)]"
    using clean_old_files_sweep [of default_config 63929347200000000 ?g] cutoff raises split by fastforce
  then have second: "clean_old_files default_config 63929347200000000 ?g = ?g"
    by simp
  have "cutoff_time ?far 63929347200000000 = Inl OverflowError"
    by (simp add: fs_eval)
  then have third: "clean_old_files ?far 63929347200000000 ?f = ?f"
    using clean_old_files_sweep [of ?far 63929347200000000 ?f] by blast
  from first second third show ?thesis
    by (simp only: simp_thms)
qed

subsection \<open>Media endpoints\<close>

lemma rfind_tail: "c \<notin> set (drop (nat (rfind p c + 1)) p)"
  by (induction p) (auto simp: Let_def nat_add_distrib)

lemma basename_no_slash: "SLASH \<notin> set (basename p)"
  by (simp add: basename_def rfind_tail)

lemma path_join_component: "SLASH \<notin> set b \<Longrightarrow> path_join d b = path_join d [] @ b"
  by (cases b) (auto simp: path_join_def)

lemma os_remove_frame: "os_remove f p = Inr f' \<Longrightarrow> q \<noteq> p \<Longrightarrow> map_of f' q = map_of f q"
  by (auto simp: os_remove_def delete_conv' split: option.splits if_splits)

lemma os_remove_gone: "os_remove f p = Inr f' \<Longrightarrow> map_of f' p = None \<and> (\<exists>n. map_of f p = Some n \<and> is_file n \<and> removable n)"
  by (auto simp: os_remove_def delete_conv' split: option.splits if_splits)

lemmas media_eval = default_config_def media_node_def new_file_def path_join_def ascii_def
  SLASH_def basename_def delete_media_def serve_media_def os_remove_def path_exists_def
  AList.delete_eq Let_def

text \<open>
  Claim C9. For every \<open>filename\<close>, the component that \<open>serve_media\<close> and
  \<open>delete_media\<close> join to the download folder contains no separator, so the path they
  use is the folder, one separator and that single component: a direct child of the
  folder (for the components \<open>.\<close> and \<open>..\<close> the folder itself or its parent, which are
  directories; \<open>os.remove\<close> refuses a directory). Both answer 404 when nothing exists at
  that path. A served response names exactly that path; a deletion leaves every other
  path of the file system as it was, and what it removes is a regular file at that path.
\<close>

theorem media_path_confined:
  "SLASH \<notin> set (basename filename)
   \<and> path_join (DOWNLOAD_FOLDER cfg) (basename filename)
       = path_join (DOWNLOAD_FOLDER cfg) [] @ basename filename
   \<and> (basename filename \<noteq> [] \<longrightarrow>
        child_name (DOWNLOAD_FOLDER cfg) (path_join (DOWNLOAD_FOLDER cfg) (basename filename))
          = Some (basename filename))
   \<and> (\<not> path_exists f (path_join (DOWNLOAD_FOLDER cfg) (basename filename)) \<longrightarrow>
        serve_media cfg f filename = HTTPError 404 (Msg (ascii ''File not found''))
        \<and> delete_media cfg f filename = (HTTPError 404 (Msg (ascii ''File not found'')), f))
   \<and> (\<forall>r. serve_media cfg f filename = Success r \<longrightarrow>
        served_path r = path_join (DOWNLOAD_FOLDER cfg) (basename filename)
        \<and> path_exists f (served_path r))
   \<and> (\<forall>p. p \<noteq> path_join (DOWNLOAD_FOLDER cfg) (basename filename) \<longrightarrow>
        map_of (snd (delete_media cfg f filename)) p = map_of f p)
   \<and> (snd (delete_media cfg f filename) \<noteq> f \<longrightarrow>
        (\<exists>n. map_of f (path_join (DOWNLOAD_FOLDER cfg) (basename filename)) = Some n
             \<and> is_file n \<and> removable n)
        \<and> map_of (snd (delete_media cfg f filename))
             (path_join (DOWNLOAD_FOLDER cfg) (basename filename)) = None)"
proof -
  have frame: "\<forall>p. p \<noteq> path_join (DOWNLOAD_FOLDER cfg) (basename filename) \<longrightarrow>
        map_of (snd (delete_media cfg f filename)) p = map_of f p"
    by (auto simp: delete_media_def Let_def split: sum.splits dest: os_remove_frame)
  have gone: "snd (delete_media cfg f filename) \<noteq> f \<longrightarrow>
        (\<exists>n. map_of f (path_join (DOWNLOAD_FOLDER cfg) (basename filename)) = Some n
             \<and> is_file n \<and> removable n)
        \<and> map_of (snd (delete_media cfg f filename))
             (path_join (DOWNLOAD_FOLDER cfg) (basename filename)) = None"
    by (auto simp: delete_media_def Let_def split: sum.splits dest: os_remove_gone)
  have serve: "\<forall>r. serve_media cfg f filename = Success r \<longrightarrow>
        served_path r = path_join (DOWNLOAD_FOLDER cfg) (basename filename)
        \<and> path_exists f (served_path r)"
    by (auto simp: serve_media_def Let_def split: if_splits)
  have missing: "\<not> path_exists f (path_join (DOWNLOAD_FOLDER cfg) (basename filename)) \<longrightarrow>
        serve_media cfg f filename = HTTPError 404 (Msg (ascii ''File not found''))
        \<and> delete_media cfg f filename = (HTTPError 404 (Msg (ascii ''File not found'')), f)"
    by (simp add: serve_media_def delete_media_def Let_def)
  have child: "basename filename \<noteq> [] \<longrightarrow>
        child_name (DOWNLOAD_FOLDER cfg) (path_join (DOWNLOAD_FOLDER cfg) (basename filename))
          = Some (basename filename)"
    by (simp add: child_name_def Let_def basename_no_slash
        path_join_component [OF basename_no_slash])
  from frame gone serve missing child show ?thesis
    using basename_no_slash [of filename]
      path_join_component [OF basename_no_slash, of "DOWNLOAD_FOLDER cfg" filename]
    by blast
qed

theorem media_path_confined_witness:
  "delete_media default_config
     [(ascii ''/etc/passwd'', media_node 0), (ascii ''downloads/v.mp4'', media_node 0)]
     (ascii ''../../etc/passwd'')
   = (HTTPError 404 (Msg (ascii ''File not found'')),
      [(ascii ''/etc/passwd'', media_node 0), (ascii ''downloads/v.mp4'', media_node 0)])
   \<and> delete_media default_config
     [(ascii ''/etc/passwd'', media_node 0), (ascii ''downloads/v.mp4'', media_node 0)]
     (ascii ''/etc/../v.mp4'')
   = (Success (ascii ''File deleted successfully''), [(ascii ''/etc/passwd'', media_node 0)])
   \<and> serve_media default_config
     [(ascii ''/etc/passwd'', media_node 0), (ascii ''downloads/v.mp4'', media_node 0)]
     (ascii ''/etc/passwd'')
   = HTTPError 404 (Msg (ascii ''File not found''))"
  using media_path_confined
    [of "ascii ''../../etc/passwd''" default_config
        "[(ascii ''/etc/passwd'', media_node 0), (ascii ''downloads/v.mp4'', media_node 0)]"]
    media_path_confined
    [of "ascii ''/etc/../v.mp4''" default_config
        "[(ascii ''/etc/passwd'', media_node 0), (ascii ''downloads/v.mp4'', media_node 0)]"]
    media_path_confined
    [of "ascii ''/etc/passwd''" default_config
        "[(ascii ''/etc/passwd'', media_node 0), (ascii ''downloads/v.mp4'', media_node 0)]"]
  by (simp add: media_eval)

subsection \<open>Immutable history entries\<close>

lemma load_after_save:
  "load_history cfg (save_history cfg now h f) = load_history cfg f
   \<or> load_history cfg (save_history cfg now h f) = slice_from (- MAX_HISTORY_ITEMS cfg) h
   \<or> load_history cfg (save_history cfg now h f) = []"
  by (auto simp: save_history_def write_json_def load_history_def path_exists_def read_json_def
      update_conv' new_file_def Let_def split: option.splits payload.splits)

lemma add_to_history_suffix:
  "\<exists>k new. (new = [] \<or> new = [stamp_entry data stamp ident])
     \<and> load_history cfg (add_to_history cfg now stamp ident data f)
         = drop k (load_history cfg f @ new)"
proof -
  let ?old = "load_history cfg f" and ?e = "stamp_entry data stamp ident"
  let ?new = "load_history cfg (add_to_history cfg now stamp ident data f)"
  have "?new = ?old \<or> ?new = slice_from (- MAX_HISTORY_ITEMS cfg) (?old @ [?e]) \<or> ?new = []"
    using load_after_save [of cfg now "?old @ [?e]" f] by (simp add: add_to_history_def Let_def)
  then consider "?new = ?old" | "?new = slice_from (- MAX_HISTORY_ITEMS cfg) (?old @ [?e])" | "?new = []"
    by blast
  then show ?thesis
  proof cases
    case 1
    then have "?new = drop 0 (?old @ [])" by simp
    then show ?thesis by blast
  next
    case 2
    obtain k where "slice_from (- MAX_HISTORY_ITEMS cfg) (?old @ [?e]) = drop k (?old @ [?e])"
      using slice_from_suffix by blast
    with 2 have "?new = drop k (?old @ [?e])" by simp
    then show ?thesis by blast
  next
    case 3
    then have "?new = drop (length ?old) (?old @ [])" by simp
    then show ?thesis by blast
  qed
qed

lemma delete_media_history:
  "load_history cfg (snd (delete_media cfg f filename)) = []
   \<or> load_history cfg (snd (delete_media cfg f filename)) = load_history cfg f"
  by (auto simp: delete_media_def os_remove_def load_history_def path_exists_def read_json_def
      delete_conv' Let_def split: option.splits sum.splits if_splits)

text \<open>
  Claim C8. No operation rewrites an entry: after \<open>add_to_history\<close> (and so after a
  download) the loaded history is a suffix of the old history followed by at most the one
  new stamped entry, so entries are only appended at the end or dropped from the front;
  after \<open>clear_history\<close> and after \<open>delete_media\<close> it is the old history or empty; the
  sweep leaves it as it was. The remaining handlers return no file system: they only
  read.
\<close>

theorem history_entries_immutable:
  "(\<exists>k new. (new = [] \<or> new = [stamp_entry data stamp ident])
      \<and> load_history cfg (add_to_history cfg now stamp ident data f)
          = drop k (load_history cfg f @ new))
   \<and> (\<exists>k new. (new = [] \<or> (\<exists>entry. new = [stamp_entry entry stamp ident]))
      \<and> load_history cfg
            (snd (download_media cfg lower ydl now stamp ident url quality format_type f))
          = drop k (load_history cfg f @ new))
   \<and> (load_history cfg (snd (clear_history cfg now f)) = []
      \<or> load_history cfg (snd (clear_history cfg now f)) = load_history cfg f)
   \<and> (load_history cfg (snd (delete_media cfg f filename)) = []
      \<or> load_history cfg (snd (delete_media cfg f filename)) = load_history cfg f)
   \<and> load_history cfg (clean_old_files cfg now f) = load_history cfg f"
proof -
  have clear: "load_history cfg (snd (clear_history cfg now f)) = []
      \<or> load_history cfg (snd (clear_history cfg now f)) = load_history cfg f"
    using load_after_save [of cfg now "[]" f]
    by (auto simp: clear_history_def Let_def slice_from_def)
  have sweep: "load_history cfg (clean_old_files cfg now f) = load_history cfg f"
    by (rule load_history_cong) (rule clean_old_files_history)
  have unchanged: "load_history cfg f = drop 0 (load_history cfg f @ [])"
    by simp
  have download: "\<exists>k new. (new = [] \<or> (\<exists>entry. new = [stamp_entry entry stamp ident]))
      \<and> load_history cfg
            (snd (download_media cfg lower ydl now stamp ident url quality format_type f))
          = drop k (load_history cfg f @ new)"
  proof (cases "prefix (ascii ''http://'') url \<or> prefix (ascii ''https://'') url")
    case False
    then have "snd (download_media cfg lower ydl now stamp ident url quality format_type f) = f"
      by (simp add: download_media_def)
    with unchanged show ?thesis by metis
  next
    case True
    show ?thesis
    proof (cases "ydl (get_format_string quality format_type) format_type url")
      case (DownloadError m)
      with True have "snd (download_media cfg lower ydl now stamp ident url quality format_type f) = f"
        by (simp add: download_media_def Let_def)
      with unchanged show ?thesis by metis
    next
      case (OtherException m)
      with True have "snd (download_media cfg lower ydl now stamp ident url quality format_type f) = f"
        by (simp add: download_media_def Let_def)
      with unchanged show ?thesis by metis
    next
      case (Extracted meta prepared)
      show ?thesis
      proof (cases "describe_download (get_platform_from_url lower url) url format_type meta prepared")
        case (Inl x)
        with True Extracted
        have "snd (download_media cfg lower ydl now stamp ident url quality format_type f) = f"
          by (simp add: download_media_def Let_def)
        with unchanged show ?thesis by metis
      next
        case (Inr described)
        obtain entry body where "described = (entry, body)"
          by (cases described)
        with True Extracted Inr
        have "snd (download_media cfg lower ydl now stamp ident url quality format_type f)
                = add_to_history cfg now stamp ident entry f"
          by (simp add: download_media_def Let_def split: option.splits)
        then show ?thesis
          using add_to_history_suffix [of entry stamp ident cfg now f] by metis
      qed
    qed
  qed
  from clear sweep download show ?thesis
    using add_to_history_suffix [of data stamp ident cfg now f] delete_media_history [of cfg f filename]
    by blast
qed

theorem history_entries_immutable_witness:
  "load_history default_config
     (add_to_history default_config 5 (ascii ''t3'') (ascii ''c0ffee00'') entry_b
        [(HISTORY_FILE default_config, history_node [entry_a])])
   = [entry_a, stamp_entry entry_b (ascii ''t3'') (ascii ''c0ffee00'')]"
  using history_entries_immutable
    [of entry_b "ascii ''t3''" "ascii ''c0ffee00''" default_config 5
        "[(HISTORY_FILE default_config, history_node [entry_a])]"]
  by (simp add: eval_defs)

end
